theory Spec2Isabelle
  imports Complex_Main "HOL-Library.AList"
begin

section \<open>Python values\<close>

text \<open>
  The services are Python. An exception is a value of \<open>py_error\<close> carrying the message
  that \<^verbatim>\<open>str(e)\<close> gives, and a function that can raise returns \<open>py_error + 'a\<close>.
  Python floats are modelled as reals: comparisons, \<^verbatim>\<open>min\<close> and \<^verbatim>\<open>max\<close> are exact on
  floats, and the arithmetic is the exact one that the float operations approximate.
\<close>

datatype py_error =
    ValueError string
  | KeyError string
  | ZeroDivisionError string
  | FileNotFoundError string
  | OtherError string

fun str_of_error :: "py_error \<Rightarrow> string" where
  "str_of_error (ValueError m) = m"
| "str_of_error (KeyError m) = m"
| "str_of_error (ZeroDivisionError m) = m"
| "str_of_error (FileNotFoundError m) = m"
| "str_of_error (OtherError m) = m"

text \<open>\<^verbatim>\<open>a / b\<close>: Python raises on a zero divisor, HOL would return 0.\<close>

definition py_truediv :: "real \<Rightarrow> real \<Rightarrow> py_error + real" where
  "py_truediv a b = (if b = 0 then Inl (ZeroDivisionError ''division by zero'') else Inr (a / b))"

text \<open>\<^verbatim>\<open>a % b\<close> on integers (the result has the sign of \<open>b\<close>, as \<open>mod\<close> on \<open>int\<close>).\<close>

definition py_mod :: "int \<Rightarrow> int \<Rightarrow> py_error + int" where
  "py_mod a b =
     (if b = 0 then Inl (ZeroDivisionError ''integer modulo by zero'') else Inr (a mod b))"

text \<open>
  \<^verbatim>\<open>round(x, n)\<close> rounds to \<open>n\<close> decimals, a tie going to the even neighbour.
\<close>

definition round_half_even :: "real \<Rightarrow> int" where
  "round_half_even x =
     (let f = \<lfloor>x\<rfloor>; d = x - of_int f
      in if d < 1 / 2 then f
         else if 1 / 2 < d then f + 1
         else if even f then f else f + 1)"

definition py_round :: "real \<Rightarrow> nat \<Rightarrow> real" where
  "py_round x n = of_int (round_half_even (x * 10 ^ n)) / 10 ^ n"

section \<open>Lake size analysis: \<^verbatim>\<open>lake_size/lake_service.py\<close>, \<^verbatim>\<open>lake_size/lake.py\<close>\<close>

subsection \<open>Percentage change and risk table\<close>

text \<open>\<^verbatim>\<open>LakeAnalyzer._calculate_change_percent\<close>.\<close>

definition calculate_change_percent :: "real \<Rightarrow> real \<Rightarrow> py_error + real" where
  "calculate_change_percent before_m2 after_m2 =
     (if before_m2 > 0 then
        (case py_truediv (after_m2 - before_m2) before_m2 of
           Inl e \<Rightarrow> Inl e
         | Inr q \<Rightarrow> Inr (q * 100))
      else Inr 0)"

text \<open>
  The conditional expression of \<^verbatim>\<open>process_glacial_image\<close> in \<^verbatim>\<open>lake.py\<close>:
  \<^verbatim>\<open>((after - before) / before) * 100 if before > 0 else 0\<close>.
\<close>

definition glacial_change_percent :: "real \<Rightarrow> real \<Rightarrow> py_error + real" where
  "glacial_change_percent before_m2 after_m2 =
     (if before_m2 > 0 then
        (case py_truediv (after_m2 - before_m2) before_m2 of
           Inl e \<Rightarrow> Inl e
         | Inr q \<Rightarrow> Inr (q * 100))
      else Inr 0)"

text \<open>\<^verbatim>\<open>LakeAnalyzer._assess_risk\<close>: the level and its message.\<close>

definition assess_risk :: "real \<Rightarrow> real \<Rightarrow> string \<times> string" where
  "assess_risk lake_change water_percentage =
     (if lake_change > 20 \<or> water_percentage > 60 then
        (''HIGH'', ''Significant lake expansion detected - High GLOF risk'')
      else if lake_change > 10 \<or> water_percentage > 40 then
        (''MODERATE'', ''Notable lake changes - Monitor closely'')
      else (''LOW'', ''Lake conditions stable''))"

subsection \<open>Segmentation: masks, dilation, 8-connected regions\<close>

text \<open>
  A mask is the boolean array that \<^verbatim>\<open>gray <= lake_threshold\<close> gives, row by row. A pixel
  is (row, column). Reading outside the array gives background. (The library pads the
  border by reflection; a reflected cell repeats a cell of the array that lies under the
  same disk, so the padding adds nothing to a dilation by a disk.)
\<close>

type_synonym mask = "bool list list"
type_synonym pixel = "int \<times> int"

definition mask_at :: "mask \<Rightarrow> int \<Rightarrow> int \<Rightarrow> bool" where
  "mask_at m i j =
     (0 \<le> i \<and> 0 \<le> j \<and> nat i < length m \<and> nat j < length (m ! nat i) \<and> m ! nat i ! nat j)"

text \<open>
  \<^verbatim>\<open>skimage.morphology.disk(radius)\<close>: the offsets (dy, dx) of the square
  \<open>[-radius, radius]\<^sup>2\<close> with \<open>dx\<^sup>2 + dy\<^sup>2 \<le> radius\<^sup>2\<close>.
\<close>

definition disk :: "int \<Rightarrow> pixel list" where
  "disk radius =
     [(dy, dx). dy \<leftarrow> [- radius..radius], dx \<leftarrow> [- radius..radius],
        dx * dx + dy * dy \<le> radius * radius]"

text \<open>
  \<^verbatim>\<open>skimage.morphology.dilation(mask, footprint)\<close> on a boolean array: a cell of the
  result is set when the mask is set at some footprint offset from it. The result has
  the shape of the input.
\<close>

definition dilation :: "mask \<Rightarrow> pixel list \<Rightarrow> mask" where
  "dilation img footprint =
     map (\<lambda>i. map (\<lambda>j. list_ex (\<lambda>(dy, dx). mask_at img (int i + dy) (int j + dx)) footprint)
                 [0..<length (img ! i)])
         [0..<length img]"

text \<open>The set pixels of a mask.\<close>

definition pixels :: "mask \<Rightarrow> pixel set" where
  "pixels m = set [(int i, int j). i \<leftarrow> [0..<length m], j \<leftarrow> [0..<length (m ! i)], m ! i ! j]"

text \<open>
  \<^verbatim>\<open>skimage.measure.label(mask)\<close> with its default connectivity, which for a 2-D array
  is 8-connectivity: two set pixels belong to one region when a chain of set pixels,
  each next to the previous one horizontally, vertically or diagonally, joins them. The
  labelled array is modelled by its regions, each the set of its pixels.
\<close>

definition adjacent8 :: "pixel \<Rightarrow> pixel \<Rightarrow> bool" where
  "adjacent8 p q = (p \<noteq> q \<and> \<bar>fst p - fst q\<bar> \<le> 1 \<and> \<bar>snd p - snd q\<bar> \<le> 1)"

definition edges :: "pixel set \<Rightarrow> (pixel \<times> pixel) set" where
  "edges S = Set.filter (\<lambda>(p, q). adjacent8 p q) (S \<times> S)"

definition region_of :: "pixel set \<Rightarrow> pixel \<Rightarrow> pixel set" where
  "region_of S p = insert p ((edges S)\<^sup>+ `` {p})"

definition label :: "mask \<Rightarrow> pixel set set" where
  "label m = region_of (pixels m) ` pixels m"

text \<open>
  \<^verbatim>\<open>LakeAnalyzer._get_largest_region_size\<close> (and the nested function of the same body in
  \<^verbatim>\<open>lake.py\<close>): \<^verbatim>\<open>max([prop.area for prop in props]) if props else 0\<close>, the area of a
  region being its number of pixels.
\<close>

definition get_largest_region_size :: "pixel set set \<Rightarrow> nat" where
  "get_largest_region_size labeled = (if labeled = {} then 0 else Max (card ` labeled))"

subsection \<open>\<^verbatim>\<open>LakeAnalyzer.analyze_image\<close>\<close>

text \<open>
  The analyzer object with what it reads from its surroundings: \<^verbatim>\<open>self.resolution\<close>, the
  two dilation radii of \<^verbatim>\<open>settings\<close>, and the library calls whose results the code
  only passes on. \<open>imread\<close> and \<open>imdecode\<close> stand for \<^verbatim>\<open>cv2.imread\<close> and
  \<^verbatim>\<open>cv2.imdecode\<close> followed by the conversion to grayscale; they give \<open>None\<close> where
  cv2 gives \<^verbatim>\<open>None\<close> (a file or buffer that is no image). \<open>threshold_otsu\<close> is
  \<^verbatim>\<open>skimage.filters.threshold_otsu\<close>.
\<close>

type_synonym gray_image = "nat list list"

record lake_analyzer =
  self_resolution :: int
  DILATION_LAKE :: int
  DILATION_ICE :: int
  imread :: "string \<Rightarrow> gray_image option"
  imdecode :: "nat list \<Rightarrow> gray_image option"
  threshold_otsu :: "gray_image \<Rightarrow> py_error + real"

text \<open>
  The result dictionary, its nested keys flattened. \<open>ice_status_text\<close> keeps the number
  that the f-string prints. \<open>image_path\<close> is the key that \<^verbatim>\<open>compare_images\<close> adds.
\<close>

datatype ice_status = NoIceDetected | IceArea int

record lake_result =
  lake_success :: bool
  image_height :: nat
  image_width :: nat
  resolution_m_per_pixel :: int
  lake_size_before_m2 :: int
  lake_size_after_m2 :: int
  lake_change_percent :: real
  ice_size_before_m2 :: int
  ice_size_after_m2 :: int
  ice_change_percent :: real
  ice_status_text :: ice_status
  coverage_total_area_m2 :: int
  coverage_water_percentage :: real
  risk_level :: string
  risk_message :: string
  image_path :: "string option"

text \<open>\<^verbatim>\<open>resolution or self.resolution\<close>: \<^verbatim>\<open>None\<close> and 0 are both false.\<close>

definition py_or :: "int option \<Rightarrow> int \<Rightarrow> int" where
  "py_or x d = (case x of None \<Rightarrow> d | Some v \<Rightarrow> if v = 0 then d else v)"

text \<open>
  The loading step of \<^verbatim>\<open>analyze_image\<close>: bytes first, then the path (an empty one is
  false), else ValueError; and ValueError again when cv2 returned \<^verbatim>\<open>None\<close>.
\<close>

definition load_image :: "lake_analyzer \<Rightarrow> string option \<Rightarrow> nat list option \<Rightarrow> py_error + gray_image" where
  "load_image self path bytes =
     (let image =
        (if bytes \<noteq> None \<and> bytes \<noteq> Some [] then Inr (imdecode self (the bytes))
         else if path \<noteq> None \<and> path \<noteq> Some [] then Inr (imread self (the path))
         else Inl (ValueError ''Either image_path or image_bytes must be provided''))
      in case image of
           Inl e \<Rightarrow> Inl e
         | Inr None \<Rightarrow> Inl (ValueError ''Could not read image'')
         | Inr (Some gray) \<Rightarrow> Inr gray)"

text \<open>\<^verbatim>\<open>image.shape[1]\<close>, the length of a row.\<close>

definition shape1 :: "'a list list \<Rightarrow> nat" where
  "shape1 img = (case img of [] \<Rightarrow> 0 | row # _ \<Rightarrow> length row)"

text \<open>
  The sizes are pixel counts times \<^verbatim>\<open>resolution ** 2\<close>, integers; \<^verbatim>\<open>round(n, 2)\<close> of
  an integer is that integer. The risk is assessed on the unrounded percentages.
\<close>

definition analyze_image ::
  "lake_analyzer \<Rightarrow> string option \<Rightarrow> nat list option \<Rightarrow> int option \<Rightarrow> py_error + lake_result" where
  "analyze_image self path bytes resolution =
     (let res = py_or resolution (self_resolution self) in
      case load_image self path bytes of
        Inl e \<Rightarrow> Inl e
      | Inr gray \<Rightarrow>
     (case threshold_otsu self gray of
        Inl e \<Rightarrow> Inl e
      | Inr lake_threshold \<Rightarrow>
     (let lake_mask = map (map (\<lambda>v. real v \<le> lake_threshold)) gray;
          ice_mask = map (map (\<lambda>v. real v > lake_threshold)) gray;
          lake_size_before = get_largest_region_size (label lake_mask);
          ice_size_before = get_largest_region_size (label ice_mask);
          lake_before_m2 = int lake_size_before * (res * res);
          ice_before_m2 = int ice_size_before * (res * res);
          dilated_lake = dilation lake_mask (disk (DILATION_LAKE self));
          dilated_ice = dilation ice_mask (disk (DILATION_ICE self));
          lake_size_after = get_largest_region_size (label dilated_lake);
          ice_size_after = get_largest_region_size (label dilated_ice);
          lake_after_m2 = int lake_size_after * (res * res);
          ice_after_m2 = int ice_size_after * (res * res)
      in
      case calculate_change_percent (real_of_int lake_before_m2) (real_of_int lake_after_m2) of
        Inl e \<Rightarrow> Inl e
      | Inr lake_change \<Rightarrow>
     (case calculate_change_percent (real_of_int ice_before_m2) (real_of_int ice_after_m2) of
        Inl e \<Rightarrow> Inl e
      | Inr ice_change \<Rightarrow>
     (let total = int (length gray) * int (shape1 gray) * (res * res) in
      case (if total > 0
            then (case py_truediv (real_of_int lake_after_m2) (real_of_int total) of
                    Inl e \<Rightarrow> Inl e | Inr q \<Rightarrow> Inr (q * 100))
            else Inr 0) of
        Inl e \<Rightarrow> Inl e
      | Inr water \<Rightarrow>
          Inr \<lparr> lake_success = True,
                image_height = length gray,
                image_width = shape1 gray,
                resolution_m_per_pixel = res,
                lake_size_before_m2 = lake_before_m2,
                lake_size_after_m2 = lake_after_m2,
                lake_change_percent = py_round lake_change 2,
                ice_size_before_m2 = ice_before_m2,
                ice_size_after_m2 = ice_after_m2,
                ice_change_percent = py_round ice_change 2,
                ice_status_text = (if ice_after_m2 = 0 then NoIceDetected else IceArea ice_after_m2),
                coverage_total_area_m2 = total,
                coverage_water_percentage = py_round water 2,
                risk_level = fst (assess_risk lake_change water),
                risk_message = snd (assess_risk lake_change water),
                image_path = None \<rparr>)))))"

subsection \<open>\<^verbatim>\<open>LakeAnalyzer.compare_images\<close>\<close>

text \<open>
  The loop over the paths. \<^verbatim>\<open>analyze_image\<close> is called outside any \<^verbatim>\<open>try\<close>, so
  the first exception leaves the loop and the method.
\<close>

fun analyze_each :: "lake_analyzer \<Rightarrow> int \<Rightarrow> string list \<Rightarrow> py_error + lake_result list" where
  "analyze_each self res [] = Inr []"
| "analyze_each self res (path # rest) =
     (case analyze_image self (Some path) None (Some res) of
        Inl e \<Rightarrow> Inl e
      | Inr result \<Rightarrow>
          (case analyze_each self res rest of
             Inl e \<Rightarrow> Inl e
           | Inr results \<Rightarrow> Inr (result\<lparr>image_path := Some path\<rparr> # results)))"

text \<open>
  The trend block (\<^verbatim>\<open>if len(results) >= 2: ... else: ...\<close>): the trend,
  \<^verbatim>\<open>total_change\<close> and \<^verbatim>\<open>avg_change\<close>.
\<close>

definition trend_analysis :: "lake_result list \<Rightarrow> py_error + string \<times> int \<times> real" where
  "trend_analysis results =
     (if length results \<ge> 2 then
        (let lake_sizes = map lake_size_after_m2 (filter lake_success results) in
         if length lake_sizes \<ge> 2 then
           (let total_change = last lake_sizes - hd lake_sizes in
            case py_truediv (real_of_int total_change) (real (length lake_sizes) - 1) of
              Inl e \<Rightarrow> Inl e
            | Inr avg_change \<Rightarrow>
                Inr (if total_change > 0 then ''EXPANDING''
                     else if total_change < 0 then ''SHRINKING'' else ''STABLE'',
                     total_change, avg_change))
         else Inr (''UNKNOWN'', 0, 0))
      else Inr (''INSUFFICIENT_DATA'', 0, 0))"

record comparison =
  comparison_success :: bool
  image_count :: nat
  individual_results :: "lake_result list"
  trend :: string
  total_lake_change_m2 :: int
  average_change_per_image_m2 :: real

definition compare_images :: "lake_analyzer \<Rightarrow> string list \<Rightarrow> int option \<Rightarrow> py_error + comparison" where
  "compare_images self image_paths resolution =
     (let res = py_or resolution (self_resolution self) in
      case analyze_each self res image_paths of
        Inl e \<Rightarrow> Inl e
      | Inr results \<Rightarrow>
          (case trend_analysis results of
             Inl e \<Rightarrow> Inl e
           | Inr (tr, total_change, avg_change) \<Rightarrow>
               Inr \<lparr> comparison_success = True,
                     image_count = length results,
                     individual_results = results,
                     trend = tr,
                     total_lake_change_m2 = total_change,
                     average_change_per_image_m2 = py_round avg_change 2 \<rparr>))"

text \<open>
  \<^verbatim>\<open>process_multiple_images\<close> of \<^verbatim>\<open>lake.py\<close>, the script that the service grew from,
  runs each image inside \<^verbatim>\<open>try ... except Exception\<close> and goes on to the next one. It
  is modelled over any per-image function \<open>process\<close>; the dictionary keyed by file
  name is an association list, a later entry of the same name replacing the earlier.
  The plotting call that follows the assignment is left out: the entry is stored before
  it runs.
\<close>

definition basename :: "string \<Rightarrow> string" where
  "basename p = rev (takeWhile (\<lambda>c. c \<noteq> CHR ''/'') (rev p))"

fun process_multiple_images ::
  "(string \<Rightarrow> py_error + 'r) \<Rightarrow> string list \<Rightarrow> (string \<times> 'r) list \<Rightarrow> (string \<times> 'r) list" where
  "process_multiple_images process [] processing_results = processing_results"
| "process_multiple_images process (path # rest) processing_results =
     (case process path of
        Inl e \<Rightarrow> process_multiple_images process rest processing_results
      | Inr result \<Rightarrow>
          process_multiple_images process rest
            (AList.update (basename path) result processing_results))"

text \<open>
  Sample data: an analyzer over a directory with one file that is no image, and an
  observation record with a given success flag and lake size.
\<close>

definition demo_lake :: lake_analyzer where
  "demo_lake = \<lparr> self_resolution = 10, DILATION_LAKE = 5, DILATION_ICE = 3,
       imread = (\<lambda>p. if p = ''unreadable.png'' then None else Some [[10, 200]]),
       imdecode = (\<lambda>b. None),
       threshold_otsu = (\<lambda>g. Inr 105) \<rparr>"

definition observed :: "bool \<Rightarrow> int \<Rightarrow> lake_result" where
  "observed ok size_after =
     \<lparr> lake_success = ok, image_height = 100, image_width = 100,
       resolution_m_per_pixel = 1, lake_size_before_m2 = size_after,
       lake_size_after_m2 = size_after, lake_change_percent = 0,
       ice_size_before_m2 = 0, ice_size_after_m2 = 0, ice_change_percent = 0,
       ice_status_text = NoIceDetected, coverage_total_area_m2 = 10000, coverage_water_percentage = 0,
       risk_level = ''LOW'', risk_message = ''Lake conditions stable'',
       image_path = None \<rparr>"

section \<open>SAR image analysis: \<^verbatim>\<open>SAR/sar_service.py\<close>, \<^verbatim>\<open>SAR/config.py\<close>\<close>

text \<open>\<^verbatim>\<open>settings.CLASS_LABELS\<close> and \<^verbatim>\<open>settings.RISK_MAPPING\<close>; a missing key is \<open>None\<close>.\<close>

definition CLASS_LABELS :: "nat \<Rightarrow> string option" where
  "CLASS_LABELS i =
     (if i = 0 then Some ''pre_glof''
      else if i = 1 then Some ''during_glof''
      else if i = 2 then Some ''post_glof''
      else None)"

record risk_info =
  info_risk_level :: string
  info_risk_score :: int
  info_message :: string

definition RISK_MAPPING :: "string \<Rightarrow> risk_info option" where
  "RISK_MAPPING c =
     (if c = ''pre_glof'' then
        Some \<lparr> info_risk_level = ''LOW'', info_risk_score = 25,
               info_message = ''Normal conditions - Pre-GLOF state'' \<rparr>
      else if c = ''during_glof'' then
        Some \<lparr> info_risk_level = ''CRITICAL'', info_risk_score = 95,
               info_message = ''GLOF IN PROGRESS - Immediate evacuation required!'' \<rparr>
      else if c = ''post_glof'' then
        Some \<lparr> info_risk_level = ''MODERATE'', info_risk_score = 50,
               info_message = ''Post-GLOF conditions - Monitor for secondary events'' \<rparr>
      else None)"

text \<open>\<^verbatim>\<open>str(n)\<close> of a natural number, for the message of a KeyError on an index.\<close>

fun str_nat :: "nat \<Rightarrow> string" where
  "str_nat n =
     (if n < 10 then [char_of (48 + n)] else str_nat (n div 10) @ [char_of (48 + n mod 10)])"

text \<open>\<^verbatim>\<open>d.get(k, default)\<close> on a dictionary kept as an association list.\<close>

definition dict_get :: "('k \<times> 'v) list \<Rightarrow> 'k \<Rightarrow> 'v \<Rightarrow> 'v" where
  "dict_get d k dflt = (case map_of d k of None \<Rightarrow> dflt | Some v \<Rightarrow> v)"

text \<open>
  The dictionary comprehension of \<^verbatim>\<open>_format_prediction\<close>, from index \<open>i\<close> on:
  \<^verbatim>\<open>{CLASS_LABELS[i]: float(predictions[i]) * 100 for i in range(len(predictions))}\<close>.
  A fourth entry raises KeyError.
\<close>

fun class_probabilities :: "nat \<Rightarrow> real list \<Rightarrow> py_error + (string \<times> real) list" where
  "class_probabilities i [] = Inr []"
| "class_probabilities i (p # ps) =
     (case CLASS_LABELS i of
        None \<Rightarrow> Inl (KeyError (str_nat i))
      | Some name \<Rightarrow>
          (case class_probabilities (Suc i) ps of
             Inl e \<Rightarrow> Inl e
           | Inr rest \<Rightarrow> Inr ((name, p * 100) # rest)))"

text \<open>\<^verbatim>\<open>np.argmax\<close>: the first index of the maximum; ValueError on an empty array.\<close>

definition argmax :: "real list \<Rightarrow> py_error + nat" where
  "argmax xs =
     (if xs = [] then Inl (ValueError ''attempt to get argmax of an empty sequence'')
      else Inr (length (takeWhile (\<lambda>x. x \<noteq> Max (set xs)) xs)))"

text \<open>
  The overall GLOF probability of \<^verbatim>\<open>_format_prediction\<close>, before rounding:
  the weighted sum of the percentages and then \<^verbatim>\<open>min(100, ...)\<close>.
\<close>

definition weighted_glof_probability :: "(string \<times> real) list \<Rightarrow> real" where
  "weighted_glof_probability probabilities =
     min 100
       (dict_get probabilities ''during_glof'' 0 * 1.0 +
        dict_get probabilities ''post_glof'' 0 * 0.3 +
        dict_get probabilities ''pre_glof'' 0 * 0.1)"

text \<open>
  The dictionary that \<^verbatim>\<open>_format_prediction\<close> returns (its key \<^verbatim>\<open>success\<close> is the
  constructor \<open>SarOk\<close> below; \<open>class_percentages\<close> is its key \<^verbatim>\<open>probabilities\<close>).
\<close>

record sar_prediction =
  predicted_class :: string
  confidence :: real
  class_percentages :: "(string \<times> real) list"
  glof_probability :: real
  sar_risk_level :: string
  sar_risk_score :: int
  sar_message :: string

definition format_prediction :: "real list \<Rightarrow> py_error + sar_prediction" where
  "format_prediction predictions =
     (case class_probabilities 0 predictions of
        Inl e \<Rightarrow> Inl e
      | Inr probabilities \<Rightarrow>
     (case argmax predictions of
        Inl e \<Rightarrow> Inl e
      | Inr predicted_class_idx \<Rightarrow>
     (case CLASS_LABELS predicted_class_idx of
        None \<Rightarrow> Inl (KeyError (str_nat predicted_class_idx))
      | Some cls \<Rightarrow>
     (case RISK_MAPPING cls of
        None \<Rightarrow> Inl (KeyError cls)
      | Some info \<Rightarrow>
          Inr \<lparr> predicted_class = cls,
                confidence = py_round (predictions ! predicted_class_idx * 100) 2,
                class_percentages = map (\<lambda>(k, v). (k, py_round v 2)) probabilities,
                glof_probability = py_round (weighted_glof_probability probabilities) 2,
                sar_risk_level = info_risk_level info,
                sar_risk_score = info_risk_score info,
                sar_message = info_message info \<rparr>))))"

text \<open>
  A result of \<^verbatim>\<open>predict\<close>: either \<^verbatim>\<open>{"error": msg, "success": False}\<close> or a
  formatted prediction. \<open>sar_success\<close> is \<^verbatim>\<open>r.get("success", False)\<close>.
\<close>

datatype sar_result = SarError string | SarOk sar_prediction

fun sar_success :: "sar_result \<Rightarrow> bool" where
  "sar_success (SarOk r) = True"
| "sar_success (SarError e) = False"

fun sar_glof_probability :: "sar_result \<Rightarrow> real" where
  "sar_glof_probability (SarOk r) = glof_probability r"
| "sar_glof_probability (SarError e) = 0"

text \<open>
  \<^verbatim>\<open>SARAnalyzer.predict\<close>. The analyzer holds the loaded model (\<open>None\<close> when loading
  failed), a function from the preprocessed tensor to the first row of the model's
  output, and the preprocessing pipeline; both can raise. Every exception is caught and
  becomes an error result.
\<close>

record 't sar_analyzer =
  sar_model :: "('t \<Rightarrow> py_error + real list) option"
  preprocess :: "string \<Rightarrow> py_error + 't"

definition predict :: "'t sar_analyzer \<Rightarrow> string \<Rightarrow> sar_result" where
  "predict self path =
     (case sar_model self of
        None \<Rightarrow> SarError ''Model not loaded''
      | Some model_predict \<Rightarrow>
          (case preprocess self path of
             Inl e \<Rightarrow> SarError (str_of_error e)
           | Inr processed_image \<Rightarrow>
               (case model_predict processed_image of
                  Inl e \<Rightarrow> SarError (str_of_error e)
                | Inr predictions \<Rightarrow>
                    (case format_prediction predictions of
                       Inl e \<Rightarrow> SarError (str_of_error e)
                     | Inr r \<Rightarrow> SarOk r))))"

text \<open>
  \<^verbatim>\<open>SARAnalyzer.analyze_batch\<close>. Each result is paired with its path (the key
  \<^verbatim>\<open>image_path\<close>). The divisor \<^verbatim>\<open>len(successful)\<close> is positive in its branch.
\<close>

datatype batch_result =
    BatchFailed (batch_error: string) (failed_individual_results: "(string \<times> sar_result) list")
  | BatchOk (total_images: nat) (successful_analyses: nat)
      (average_glof_probability: real) (max_glof_probability: real)
      (individual_sar_results: "(string \<times> sar_result) list")

definition analyze_batch :: "'t sar_analyzer \<Rightarrow> string list \<Rightarrow> py_error + batch_result" where
  "analyze_batch self image_paths =
     (let results = map (\<lambda>path. (path, predict self path)) image_paths;
          successful = filter (\<lambda>r. sar_success (snd r)) results
      in if successful \<noteq> [] then
           (case py_truediv (sum_list (map (\<lambda>r. sar_glof_probability (snd r)) successful))
                            (real (length successful)) of
              Inl e \<Rightarrow> Inl e
            | Inr avg_probability \<Rightarrow>
                Inr (BatchOk (length image_paths) (length successful)
                       (py_round avg_probability 2)
                       (py_round (Max (set (map (\<lambda>r. sar_glof_probability (snd r)) successful))) 2)
                       results))
         else Inr (BatchFailed ''No images could be analyzed'' results))"


section \<open>SAR preprocessing: \<^verbatim>\<open>SAR/preprocessing_service.py\<close>\<close>

text \<open>
  A value of a NumPy float array: a finite number, or one of \<^verbatim>\<open>nan\<close>, \<^verbatim>\<open>inf\<close>,
  \<^verbatim>\<open>-inf\<close>. The elementwise \<^verbatim>\<open>a / b\<close> of NumPy does not raise: a zero divisor
  gives a value that is not finite (and a warning).
\<close>

datatype np_float = Finite real | NotFinite

definition np_divide :: "real \<Rightarrow> real \<Rightarrow> np_float" where
  "np_divide a b = (if b = 0 then NotFinite else Finite (a / b))"

text \<open>
  \<^verbatim>\<open>SARPreprocessor.normalize\<close> on a grid of finite values given row by row (the
  cleaning step before it has replaced the others). \<^verbatim>\<open>np.min\<close> and \<^verbatim>\<open>np.max\<close> raise
  ValueError on an array without elements. The division is elementwise and stands
  under the test \<^verbatim>\<open>max_val - min_val > 0\<close>; \<^verbatim>\<open>np.zeros_like\<close> keeps the shape.
\<close>

definition zeros_like :: "real list list \<Rightarrow> real list list" where
  "zeros_like img = map (map (\<lambda>v. 0)) img"

definition normalize_image :: "real list list \<Rightarrow> py_error + np_float list list" where
  "normalize_image img =
     (if concat img = [] then
        Inl (ValueError ''zero-size array to reduction operation minimum which has no identity'')
      else
        (let min_val = Min (set (concat img));
             max_val = Max (set (concat img))
         in if max_val - min_val > 0 then
              Inr (map (map (\<lambda>v. np_divide (v - min_val) (max_val - min_val))) img)
            else Inr (map (map Finite) (zeros_like img))))"

section \<open>GLOF prediction from sensors: \<^verbatim>\<open>GLOF/prediction_service.py\<close>\<close>

text \<open>
  Sensor readings are a dictionary from names to floats, kept as an association list.
  \<open>sensor_baseline_initial\<close> is the baseline that the constructor sets.
\<close>

type_synonym sensor_values = "(string \<times> real) list"

definition sensor_baseline_initial :: sensor_values where
  "sensor_baseline_initial =
     [(''Lake_Size_km2'', 1.5), (''Water_Level_m'', 10.0), (''Air_Temperature_C'', 15.0),
      (''Flow_Rate_m3_per_s'', 100.0), (''Ground_Movement_mm'', 2.0),
      (''Dam_Pressure_MPa'', 1.0), (''Precipitation_mm'', 50.0),
      (''Sensor_Accuracy_%'', 95.0), (''Lake_Perimeter_Change_m'', 5.0),
      (''Snowpack_Thickness_m'', 2.5), (''Soil_Moisture_Content_%'', 30.0),
      (''Solar_Radiation_W_per_m2'', 300.0), (''Water_Temperature_C'', 12.5),
      (''Water_Turbidity_NTU'', 5.0), (''Wind_Speed_m_per_s'', 10.0),
      (''Rainfall_mm'', 75.0), (''Snowfall_mm'', 25.0)]"

text \<open>
  \<^verbatim>\<open>generate_sensor_values\<close>: every baseline value moves by its own random change and is
  floored at 0; the result is both the new baseline and the returned copy. \<open>uniform i\<close>
  is the \<open>i\<close>-th draw of \<^verbatim>\<open>np.random.uniform(-0.5, 0.5)\<close>.
\<close>

definition generate_sensor_values :: "sensor_values \<Rightarrow> (nat \<Rightarrow> real) \<Rightarrow> sensor_values" where
  "generate_sensor_values sensor_baseline uniform =
     map (\<lambda>(i, key, v). (key, max 0 (v + uniform i))) (enumerate 0 sensor_baseline)"

text \<open>
  \<^verbatim>\<open>_generate_mock_probability\<close>; \<open>noise\<close> is the draw of
  \<^verbatim>\<open>np.random.uniform(-0.05, 0.05)\<close>.
\<close>

definition generate_mock_probability :: "sensor_values \<Rightarrow> real \<Rightarrow> real" where
  "generate_mock_probability sensors noise =
     (let water_level = dict_get sensors ''Water_Level_m'' 10.0;
          flow_rate = dict_get sensors ''Flow_Rate_m3_per_s'' 100.0;
          ground_movement = dict_get sensors ''Ground_Movement_mm'' 2.0;
          precipitation = dict_get sensors ''Precipitation_mm'' 50.0;
          water_factor = min (water_level / 20.0) 1.0;
          flow_factor = min (flow_rate / 200.0) 1.0;
          movement_factor = min (ground_movement / 10.0) 1.0;
          precip_factor = min (precipitation / 100.0) 1.0;
          base_prob = water_factor * 0.3 + flow_factor * 0.25 +
                      movement_factor * 0.25 + precip_factor * 0.2
      in max 0.0 (min 1.0 (base_prob + noise)))"

text \<open>
  \<^verbatim>\<open>GLOFPredictor.predict\<close>. The trained classifier, when one was loaded, maps the
  readings to a probability and its three most important features, or raises; without
  one, and after an exception, the heuristic is used. Without readings the simulated
  ones are generated, which moves the baseline: the new baseline is returned too.
\<close>

record glof_prediction =
  probability :: real
  glof_risk_level :: string
  glof_risk_message :: string
  top_contributing_factors :: "string list"
  reported_sensor_values :: sensor_values

record glof_predictor =
  classifier :: "(sensor_values \<Rightarrow> py_error + real \<times> string list) option"
  sensor_baseline :: sensor_values

definition glof_predict ::
  "glof_predictor \<Rightarrow> (nat \<Rightarrow> real) \<Rightarrow> real \<Rightarrow> sensor_values option \<Rightarrow>
     glof_prediction \<times> glof_predictor" where
  "glof_predict self uniform noise given =
     (let (sensors, self') =
            (case given of
               None \<Rightarrow>
                 (let b = generate_sensor_values (sensor_baseline self) uniform
                  in (b, self\<lparr>sensor_baseline := b\<rparr>))
             | Some s \<Rightarrow> (s, self));
          mock = (generate_mock_probability sensors noise,
                  [''Water_Level_m'', ''Flow_Rate_m3_per_s'', ''Ground_Movement_mm'']);
          (prob, top_features) =
            (case classifier self of
               None \<Rightarrow> mock
             | Some model_predict \<Rightarrow>
                 (case model_predict sensors of Inl e \<Rightarrow> mock | Inr r \<Rightarrow> r));
          (level, message) =
            (if prob \<ge> 0.7 then (''HIGH'', ''High Risk of GLOF - Immediate action recommended'')
             else if prob \<ge> 0.4 then (''MODERATE'', ''Moderate Risk - Monitor closely'')
             else (''LOW'', ''Low Risk - Normal conditions''))
      in (\<lparr> probability = py_round (prob * 100) 2,
             glof_risk_level = level,
             glof_risk_message = message,
             top_contributing_factors = top_features,
             reported_sensor_values = sensors \<rparr>, self'))"

text \<open>Sample readings: the four key sensors at their normalization caps.\<close>

definition scenario_d :: sensor_values where
  "scenario_d =
     [(''Water_Level_m'', 20), (''Flow_Rate_m3_per_s'', 200),
      (''Ground_Movement_mm'', 10), (''Precipitation_mm'', 100)]"


section \<open>DEM analysis: \<^verbatim>\<open>srtm & motionOfWaves/dem_service.py\<close>\<close>


record dem_measurements =
  grid_height :: nat
  grid_width :: nat
  water_level :: real
  submerged_volume :: real
  submerged_area :: real
  overflow_rate :: real
  avg_flow_velocity :: real
  min_elevation :: real
  max_elevation :: real
  mean_elevation :: real








section \<open>Motion detection: \<^verbatim>\<open>srtm & motionOfWaves/motion_service.py\<close>\<close>

text \<open>
  What the OpenCV calls of \<^verbatim>\<open>analyze_frame_pair\<close> give for a pair of frames: the number
  of water-coloured pixels, the flow magnitudes of the pixels above the motion threshold
  (\<^verbatim>\<open>magnitude[motion_mask]\<close>), and the external contours of the combined mask, each
  with its \<^verbatim>\<open>cv2.contourArea\<close> and its bounding box (x, y, w, h).
\<close>

record contour =
  contour_area :: real
  bounding_rect :: "int \<times> int \<times> int \<times> int"

record pair_measurement =
  water_pixels :: nat
  motion_magnitudes :: "real list"
  contours :: "contour list"

record motion_region =
  region_bbox :: "int \<times> int \<times> int \<times> int"
  area_m2 :: real
  volume_m3 :: real

record frame_result =
  water_detected_pixels :: nat
  motion_detected_pixels :: nat
  water_motion_regions :: nat
  total_flow_volume_m3 :: real
  avg_flow_velocity :: real
  regions :: "motion_region list"
  frame_number :: "int option"

text \<open>
  The detector: the three settings it copies, and \<open>measure\<close>, the OpenCV part of
  \<^verbatim>\<open>analyze_frame_pair\<close>, which raises on frames it cannot process.
\<close>

record 'f motion_detector =
  pixel_to_meter :: real
  estimated_depth :: real
  motion_threshold :: real
  measure_pair :: "'f \<Rightarrow> 'f \<Rightarrow> py_error + pair_measurement"

text \<open>The loop over the contours: volume and region of every contour above 100 pixels.\<close>

fun contour_regions :: "'f motion_detector \<Rightarrow> contour list \<Rightarrow> real \<times> motion_region list" where
  "contour_regions self [] = (0, [])"
| "contour_regions self (c # cs) =
     (let (rest_volume, rest_regions) = contour_regions self cs;
          pixel_area = contour_area c
      in if pixel_area > 100 then
           (let real_area = pixel_area * (pixel_to_meter self * pixel_to_meter self);
                volume = real_area * estimated_depth self
            in (volume + rest_volume,
                \<lparr> region_bbox = bounding_rect c, area_m2 = py_round real_area 4,
                  volume_m3 = py_round volume 4 \<rparr> # rest_regions))
         else (rest_volume, rest_regions))"

text \<open>\<^verbatim>\<open>MotionDetector.analyze_frame_pair\<close>.\<close>

definition analyze_frame_pair :: "'f motion_detector \<Rightarrow> 'f \<Rightarrow> 'f \<Rightarrow> py_error + frame_result" where
  "analyze_frame_pair self frame1 frame2 =
     (case measure_pair self frame1 frame2 of
        Inl e \<Rightarrow> Inl e
      | Inr m \<Rightarrow>
          (let (total_volume, rs) = contour_regions self (contours m);
               avg_velocity =
                 (if motion_magnitudes m \<noteq> []
                  then sum_list (motion_magnitudes m) / real (length (motion_magnitudes m))
                  else 0)
           in Inr \<lparr> water_detected_pixels = water_pixels m,
                     motion_detected_pixels = length (motion_magnitudes m),
                     water_motion_regions = length rs,
                     total_flow_volume_m3 = py_round total_volume 4,
                     avg_flow_velocity = py_round avg_velocity 4,
                     regions = rs,
                     frame_number = None \<rparr>))"

text \<open>\<^verbatim>\<open>MotionDetector._assess_risk\<close>.\<close>

definition motion_assess_risk :: "real \<Rightarrow> real \<Rightarrow> string \<times> string" where
  "motion_assess_risk avg_volume avg_velocity =
     (if avg_volume > 10 \<or> avg_velocity > 5 then
        (''HIGH'', ''Significant water motion detected - High flood risk'')
      else if avg_volume > 5 \<or> avg_velocity > 2 then
        (''MODERATE'', ''Notable water motion - Monitor closely'')
      else (''LOW'', ''Normal water motion levels''))"

text \<open>
  A \<^verbatim>\<open>cv2.VideoCapture\<close>: whether it opened, the frames that \<^verbatim>\<open>read()\<close> delivers before
  it first returns \<^verbatim>\<open>ret == False\<close>, and the four properties read from it.
\<close>

record 'f video_capture =
  is_opened :: bool
  readable_frames :: "'f list"
  video_fps :: real
  video_total_frames :: int
  video_width :: int
  video_height :: int

text \<open>
  The \<^verbatim>\<open>while\<close> loop of \<^verbatim>\<open>analyze_video\<close> over the frames still to be read, with its
  variables \<^verbatim>\<open>prev_frame\<close>, \<^verbatim>\<open>frame_count\<close>, \<^verbatim>\<open>analyzed_count\<close> and \<^verbatim>\<open>results\<close>. It
  ends when the count reaches \<^verbatim>\<open>max_frames\<close> or no frame is left; an exception of the
  pair analysis, or of \<^verbatim>\<open>frame_count % frame_skip\<close>, leaves it.
\<close>

fun video_loop ::
  "'f motion_detector \<Rightarrow> int \<Rightarrow> int \<Rightarrow> 'f list \<Rightarrow> 'f option \<Rightarrow> int \<Rightarrow> int \<Rightarrow> frame_result list \<Rightarrow>
     py_error + frame_result list \<times> int" where
  "video_loop self max_frames frame_skip [] prev_frame frame_count analyzed_count results =
     Inr (results, analyzed_count)"
| "video_loop self max_frames frame_skip (frame # rest) prev_frame frame_count analyzed_count results =
     (if analyzed_count < max_frames then
        (case py_mod (frame_count + 1) frame_skip of
           Inl e \<Rightarrow> Inl e
         | Inr r \<Rightarrow>
             if r \<noteq> 0 then
               video_loop self max_frames frame_skip rest prev_frame (frame_count + 1)
                 analyzed_count results
             else
               (case prev_frame of
                  None \<Rightarrow>
                    video_loop self max_frames frame_skip rest (Some frame) (frame_count + 1)
                      analyzed_count results
                | Some prev \<Rightarrow>
                    (case analyze_frame_pair self prev frame of
                       Inl e \<Rightarrow> Inl e
                     | Inr result \<Rightarrow>
                         video_loop self max_frames frame_skip rest (Some frame) (frame_count + 1)
                           (analyzed_count + 1)
                           (results @ [result\<lparr>frame_number := Some (frame_count + 1)\<rparr>]))))
      else Inr (results, analyzed_count))"

text \<open>The result of \<^verbatim>\<open>analyze_video\<close>.\<close>

record video_report =
  info_fps :: real
  info_total_frames :: int
  info_width :: int
  info_height :: int
  frames_analyzed :: int
  avg_flow_volume_m3 :: real
  max_flow_volume_m3 :: real
  video_avg_flow_velocity :: real
  video_risk_level :: string
  video_risk_message :: string

datatype video_result = VideoError string | VideoOk video_report

text \<open>
  \<^verbatim>\<open>MotionDetector.analyze_video\<close>, on the capture that \<^verbatim>\<open>cv2.VideoCapture(path)\<close>
  gave. The divisors \<^verbatim>\<open>len(total_volumes)\<close> and \<^verbatim>\<open>len(velocities)\<close> are positive in
  their branch.
\<close>

definition analyze_video ::
  "'f motion_detector \<Rightarrow> 'f video_capture \<Rightarrow> int \<Rightarrow> int \<Rightarrow> py_error + video_result" where
  "analyze_video self cap max_frames frame_skip =
     (if \<not> is_opened cap then Inr (VideoError ''Could not open video'')
      else
        (case video_loop self max_frames frame_skip (readable_frames cap) None 0 0 [] of
           Inl e \<Rightarrow> Inl e
         | Inr (results, analyzed_count) \<Rightarrow>
             (let (avg_volume, max_volume, avg_velocity, risk) =
                    (if results \<noteq> [] then
                       (let total_volumes = map total_flow_volume_m3 results;
                            velocities = map avg_flow_velocity results;
                            avg_volume = sum_list total_volumes / real (length total_volumes);
                            max_volume = Max (set total_volumes);
                            avg_velocity = sum_list velocities / real (length velocities)
                        in (avg_volume, max_volume, avg_velocity,
                            motion_assess_risk avg_volume avg_velocity))
                     else (0, 0, 0, (''UNKNOWN'', ''No frames analyzed'')))
              in Inr (VideoOk
                   \<lparr> info_fps = video_fps cap,
                     info_total_frames = video_total_frames cap,
                     info_width = video_width cap,
                     info_height = video_height cap,
                     frames_analyzed = analyzed_count,
                     avg_flow_volume_m3 = py_round avg_volume 4,
                     max_flow_volume_m3 = py_round max_volume 4,
                     video_avg_flow_velocity = py_round avg_velocity 4,
                     video_risk_level = fst risk,
                     video_risk_message = snd risk \<rparr>))))"

text \<open>
  Sample data: a detector whose OpenCV part measures one contour of 400 pixels moving
  at speed 3, a file that does not open, and a file that opens with a given list of
  frames (numbered).
\<close>

definition demo_detector :: "nat motion_detector" where
  "demo_detector =
     \<lparr> pixel_to_meter = 1 / 100, estimated_depth = 1 / 2, motion_threshold = 3 / 2,
       measure_pair = (\<lambda>a b.
          Inr \<lparr> water_pixels = 500, motion_magnitudes = [3, 3],
                contours = [\<lparr> contour_area = 400, bounding_rect = (0, 0, 20, 20) \<rparr>] \<rparr>) \<rparr>"

definition demo_capture :: "bool \<Rightarrow> nat list \<Rightarrow> nat video_capture" where
  "demo_capture opened frames =
     \<lparr> is_opened = opened, readable_frames = frames, video_fps = 25,
       video_total_frames = int (length frames), video_width = 640, video_height = 480 \<rparr>"

section \<open>Properties\<close>

text \<open>
  C7. For before > 0 the percentage change is (after - before) / before * 100, for
  before = 0 it is exactly 0, and no call raises ZeroDivisionError: the division is only
  reached under the guard before > 0. Both the service method and the expression in
  lake.py behave so.
\<close>

theorem change_percent_guarded:
  "(0 < before \<longrightarrow>
      calculate_change_percent before after = Inr ((after - before) / before * 100) \<and>
      glacial_change_percent before after = Inr ((after - before) / before * 100)) \<and>
   calculate_change_percent 0 after = Inr 0 \<and>
   glacial_change_percent 0 after = Inr 0 \<and>
   (\<forall>e. calculate_change_percent before after \<noteq> Inl e) \<and>
   (\<forall>e. glacial_change_percent before after \<noteq> Inl e)"
  by (simp add: calculate_change_percent_def glacial_change_percent_def py_truediv_def)

theorem change_percent_guarded_witness:
  "calculate_change_percent 200 250 = Inr 25 \<and>
   glacial_change_percent 200 250 = Inr 25 \<and>
   calculate_change_percent 0 250 = Inr 0 \<and>
   glacial_change_percent 0 250 = Inr 0"
  using change_percent_guarded [of 200 250] by simp

text \<open>
  C3. The risk level is HIGH exactly when lake_change_percent > 20 or
  water_percentage > 60; otherwise MODERATE exactly when lake_change_percent > 10 or
  water_percentage > 40; otherwise LOW. The comparisons are strict: a change of exactly
  20 (with low coverage) is not HIGH, any change above 20 is.
\<close>

theorem assess_risk_threshold_table:
  "(fst (assess_risk lake_change water_percentage) = ''HIGH'' \<longleftrightarrow>
      lake_change > 20 \<or> water_percentage > 60) \<and>
   (fst (assess_risk lake_change water_percentage) = ''MODERATE'' \<longleftrightarrow>
      \<not> (lake_change > 20 \<or> water_percentage > 60) \<and>
      (lake_change > 10 \<or> water_percentage > 40)) \<and>
   (fst (assess_risk lake_change water_percentage) = ''LOW'' \<longleftrightarrow>
      \<not> (lake_change > 20 \<or> water_percentage > 60) \<and>
      \<not> (lake_change > 10 \<or> water_percentage > 40)) \<and>
   fst (assess_risk 20 0) = ''MODERATE'' \<and>
   (0 < eps \<longrightarrow> fst (assess_risk (20 + eps) 0) = ''HIGH'')"
  by (simp add: assess_risk_def)

theorem assess_risk_threshold_table_witness:
  "fst (assess_risk 20 0) = ''MODERATE'' \<and>
   fst (assess_risk (20 + 1 / 10000) 0) = ''HIGH'' \<and>
   fst (assess_risk 5 61) = ''HIGH'' \<and>
   fst (assess_risk 5 41) = ''MODERATE'' \<and>
   fst (assess_risk 10 40) = ''LOW''"
  using assess_risk_threshold_table [of 20 0 "1 / 10000"]
    assess_risk_threshold_table [of 5 61 1]
    assess_risk_threshold_table [of 5 41 1]
    assess_risk_threshold_table [of 10 40 1]
  by simp

subsection \<open>Dilation and the largest region\<close>

lemma pixels_of_nat:
  "a < length m \<Longrightarrow> b < length (m ! a) \<Longrightarrow> m ! a ! b \<Longrightarrow> (int a, int b) \<in> pixels m"
  by (auto simp: pixels_def)

lemma pixels_iff: "(i, j) \<in> pixels m \<longleftrightarrow> mask_at m i j"
proof
  assume "(i, j) \<in> pixels m"
  then obtain a b where "a < length m" "b < length (m ! a)" "m ! a ! b" "i = int a" "j = int b"
    by (auto simp: pixels_def split: if_splits)
  then show "mask_at m i j" by (simp add: mask_at_def)
next
  assume at: "mask_at m i j"
  then have "(int (nat i), int (nat j)) \<in> pixels m"
    by (intro pixels_of_nat) (simp_all add: mask_at_def)
  with at show "(i, j) \<in> pixels m" by (simp add: mask_at_def)
qed

lemma finite_pixels: "finite (pixels m)"
  by (simp add: pixels_def)

lemma origin_in_disk: "0 \<le> r \<Longrightarrow> (0, 0) \<in> set (disk r)"
  by (auto simp: disk_def)

lemma length_dilation: "length (dilation m fp) = length m"
  by (simp add: dilation_def)

lemma nth_dilation:
  "a < length m \<Longrightarrow>
     dilation m fp ! a =
       map (\<lambda>j. list_ex (\<lambda>(dy, dx). mask_at m (int a + dy) (int j + dx)) fp)
         [0..<length (m ! a)]"
  by (simp add: dilation_def)

lemma mask_at_dilation:
  "mask_at (dilation m fp) i j \<longleftrightarrow>
     0 \<le> i \<and> 0 \<le> j \<and> nat i < length m \<and> nat j < length (m ! nat i) \<and>
     (\<exists>(dy, dx) \<in> set fp. mask_at m (i + dy) (j + dx))"
proof -
  have "mask_at (dilation m fp) i j \<longleftrightarrow>
     0 \<le> i \<and> 0 \<le> j \<and> nat i < length m \<and> nat j < length (m ! nat i) \<and>
     list_ex (\<lambda>(dy, dx). mask_at m (i + dy) (j + dx)) fp"
    by (auto simp: mask_at_def [of "dilation m fp"] length_dilation nth_dilation)
  then show ?thesis by (simp add: list_ex_iff)
qed

lemma pixels_dilation_extensive:
  assumes "0 \<le> r" shows "pixels m \<subseteq> pixels (dilation m (disk r))"
proof
  fix p assume "p \<in> pixels m"
  then obtain i j where p: "p = (i, j)" and at: "mask_at m i j"
    by (cases p) (auto simp: pixels_iff)
  from at have "0 \<le> i \<and> 0 \<le> j \<and> nat i < length m \<and> nat j < length (m ! nat i)"
    by (simp add: mask_at_def)
  moreover from at origin_in_disk [OF assms]
  have "\<exists>(dy, dx) \<in> set (disk r). mask_at m (i + dy) (j + dx)"
    by force
  ultimately show "p \<in> pixels (dilation m (disk r))"
    by (simp add: p pixels_iff mask_at_dilation)
qed

lemma edges_mono: "S \<subseteq> T \<Longrightarrow> edges S \<subseteq> edges T"
  by (auto simp: edges_def)

lemma region_of_mono: "S \<subseteq> T \<Longrightarrow> region_of S p \<subseteq> region_of T p"
  unfolding region_of_def using trancl_mono [of _ "edges S" "edges T"] edges_mono [of S T]
  by auto

lemma region_of_subset: "p \<in> S \<Longrightarrow> region_of S p \<subseteq> S"
proof -
  assume p: "p \<in> S"
  have "(a, b) \<in> (edges S)\<^sup>+ \<Longrightarrow> b \<in> S" for a b
    by (induction rule: trancl.induct) (auto simp: edges_def)
  with p show ?thesis by (auto simp: region_of_def)
qed

lemma largest_region_mono:
  assumes "S \<subseteq> T" "finite T"
  shows "get_largest_region_size (region_of S ` S) \<le> get_largest_region_size (region_of T ` T)"
proof (cases "S = {}")
  case True
  then show ?thesis by (simp add: get_largest_region_size_def)
next
  case False
  with assms have T: "T \<noteq> {}" and fS: "finite S" by (auto intro: finite_subset)
  have "card (region_of S p) \<le> Max (card ` region_of T ` T)" if p: "p \<in> S" for p
  proof -
    from p assms have pT: "p \<in> T" by auto
    have "finite (region_of T p)"
      using region_of_subset [OF pT] assms(2) by (rule finite_subset)
    then have "card (region_of S p) \<le> card (region_of T p)"
      using region_of_mono [OF assms(1)] by (simp add: card_mono)
    also have "\<dots> \<le> Max (card ` region_of T ` T)"
      using assms(2) pT by (intro Max_ge) auto
    finally show ?thesis .
  qed
  then have "Max (card ` region_of S ` S) \<le> Max (card ` region_of T ` T)"
    using fS False by (subst Max_le_iff) auto
  with False T show ?thesis by (simp add: get_largest_region_size_def)
qed

text \<open>
  C8. For every mask (empty or not) and every dilation radius \<ge> 0, the largest
  8-connected region of the dilated mask has at least as many pixels as the largest
  region of the mask itself.
\<close>

theorem dilation_largest_region_monotone:
  "0 \<le> radius \<Longrightarrow>
     get_largest_region_size (label m) \<le>
     get_largest_region_size (label (dilation m (disk radius)))"
  using largest_region_mono [of "pixels m" "pixels (dilation m (disk radius))"]
    pixels_dilation_extensive [of radius m] finite_pixels [of "dilation m (disk radius)"]
  by (simp add: label_def)

theorem dilation_largest_region_monotone_witness:
  "(0::int) \<le> 1 \<and>
   get_largest_region_size (label [[True, False]]) = 1 \<and>
   get_largest_region_size (label (dilation [[True, False]] (disk 1))) = 2 \<and>
   get_largest_region_size (label [[True, False]]) \<le>
     get_largest_region_size (label (dilation [[True, False]] (disk 1)))"
proof -
  have before: "get_largest_region_size (label [[True, False]]) = 1"
    by code_simp
  have after:
    "get_largest_region_size (label (dilation [[True, False]] (disk 1))) = 2"
    by code_simp
  have "(0::int) \<le> 1" by simp
  from dilation_largest_region_monotone [OF this, of "[[True, False]]"]
    before after
  show ?thesis by simp
qed

subsection \<open>Lake image sequences\<close>

lemma load_unreadable:
  "path \<noteq> [] \<Longrightarrow> imread self path = None \<Longrightarrow>
     load_image self (Some path) None = Inl (ValueError ''Could not read image'')"
  by (simp add: load_image_def)

lemma analyze_image_unreadable:
  "path \<noteq> [] \<Longrightarrow> imread self path = None \<Longrightarrow>
     analyze_image self (Some path) None res = Inl (ValueError ''Could not read image'')"
  by (simp add: analyze_image_def load_unreadable)

lemma analyze_image_success:
  "analyze_image self path bytes res = Inr r \<Longrightarrow> lake_success r"
  by (auto simp: analyze_image_def Let_def split: sum.splits if_splits)

lemma analyze_each_success:
  "analyze_each self res paths = Inr rs \<Longrightarrow> length rs = length paths \<and> (\<forall>r \<in> set rs. lake_success r)"
proof (induction paths arbitrary: rs)
  case Nil
  then show ?case by simp
next
  case (Cons p ps)
  then show ?case
    using analyze_image_success [of self "Some p" None "Some res"]
    by (auto split: sum.splits)
qed

lemma analyze_each_aborts:
  "path \<in> set paths \<Longrightarrow> path \<noteq> [] \<Longrightarrow> imread self path = None \<Longrightarrow>
     \<exists>e. analyze_each self res paths = Inl e"
proof (induction paths)
  case Nil
  then show ?case by simp
next
  case (Cons p ps)
  then show ?case
    by (auto split: sum.splits simp: analyze_image_unreadable)
qed

lemma compare_images_aborts:
  "path \<in> set paths \<Longrightarrow> path \<noteq> [] \<Longrightarrow> imread self path = None \<Longrightarrow>
     \<exists>e. compare_images self paths res = Inl e"
  using analyze_each_aborts [of path paths self "py_or res (self_resolution self)"]
  by (auto simp: compare_images_def Let_def)

text \<open>
  C1, as the code has it. The outer test is on the number of observations, the inner
  one on the number of successful observations: with fewer than two observations the
  trend is INSUFFICIENT_DATA; with two or more observations of which fewer than two
  succeeded it is UNKNOWN (both with changes 0); with two or more successful
  observations total_change = value[last] - value[first], average_change =
  total_change / (count - 1), and the trend is EXPANDING, SHRINKING or STABLE by the
  sign of total_change. The results that compare_images itself collects are all
  successful, one per path, and it reports the trend and total of this rule and the
  average rounded to two decimals.
\<close>

theorem compare_images_trend_rule:
  "(length results < 2 \<longrightarrow> trend_analysis results = Inr (''INSUFFICIENT_DATA'', 0, 0)) \<and>
   (2 \<le> length results \<and> length (filter lake_success results) < 2 \<longrightarrow>
      trend_analysis results = Inr (''UNKNOWN'', 0, 0)) \<and>
   (2 \<le> length (filter lake_success results) \<longrightarrow>
      (let sizes = map lake_size_after_m2 (filter lake_success results);
           total_change = last sizes - hd sizes
       in trend_analysis results =
            Inr (if total_change > 0 then ''EXPANDING''
                 else if total_change < 0 then ''SHRINKING'' else ''STABLE'',
                 total_change,
                 real_of_int total_change / (real (length sizes) - 1)))) \<and>
   (compare_images self paths res = Inr c \<longrightarrow>
      length (individual_results c) = length paths \<and>
      filter lake_success (individual_results c) = individual_results c \<and>
      (\<exists>avg. trend_analysis (individual_results c) = Inr (trend c, total_lake_change_m2 c, avg) \<and>
             average_change_per_image_m2 c = py_round avg 2))"
proof -
  have le: "length (filter lake_success results) \<le> length results" by simp
  have a: "length results < 2 \<longrightarrow> trend_analysis results = Inr (''INSUFFICIENT_DATA'', 0, 0)"
    by (simp add: trend_analysis_def)
  have b: "2 \<le> length results \<and> length (filter lake_success results) < 2 \<longrightarrow>
      trend_analysis results = Inr (''UNKNOWN'', 0, 0)"
    by (simp add: trend_analysis_def Let_def)
  have c: "2 \<le> length (filter lake_success results) \<longrightarrow>
      (let sizes = map lake_size_after_m2 (filter lake_success results);
           total_change = last sizes - hd sizes
       in trend_analysis results =
            Inr (if total_change > 0 then ''EXPANDING''
                 else if total_change < 0 then ''SHRINKING'' else ''STABLE'',
                 total_change,
                 real_of_int total_change / (real (length sizes) - 1)))"
  proof
    assume two: "2 \<le> length (filter lake_success results)"
    with le have "2 \<le> length results" by linarith
    with two show "let sizes = map lake_size_after_m2 (filter lake_success results);
           total_change = last sizes - hd sizes
       in trend_analysis results =
            Inr (if total_change > 0 then ''EXPANDING''
                 else if total_change < 0 then ''SHRINKING'' else ''STABLE'',
                 total_change,
                 real_of_int total_change / (real (length sizes) - 1))"
      by (simp add: trend_analysis_def Let_def py_truediv_def)
  qed
  have d: "compare_images self paths res = Inr c \<longrightarrow>
      length (individual_results c) = length paths \<and>
      filter lake_success (individual_results c) = individual_results c \<and>
      (\<exists>avg. trend_analysis (individual_results c) = Inr (trend c, total_lake_change_m2 c, avg) \<and>
             average_change_per_image_m2 c = py_round avg 2)"
  proof
    assume "compare_images self paths res = Inr c"
    then obtain rs tr tot avg where
      rs: "analyze_each self (py_or res (self_resolution self)) paths = Inr rs" and
      ta: "trend_analysis rs = Inr (tr, tot, avg)" and
      c: "c = \<lparr> comparison_success = True, image_count = length rs, individual_results = rs,
                 trend = tr, total_lake_change_m2 = tot,
                 average_change_per_image_m2 = py_round avg 2 \<rparr>"
      by (auto simp: compare_images_def Let_def split: sum.splits prod.splits)
    from analyze_each_success [OF rs] have "length rs = length paths" "filter lake_success rs = rs"
      by auto
    with ta c show "length (individual_results c) = length paths \<and>
      filter lake_success (individual_results c) = individual_results c \<and>
      (\<exists>avg. trend_analysis (individual_results c) = Inr (trend c, total_lake_change_m2 c, avg) \<and>
             average_change_per_image_m2 c = py_round avg 2)"
      by simp
  qed
  from a b c d show ?thesis by blast
qed

theorem compare_images_trend_rule_witness:
  "trend_analysis [observed True 10, observed True 10] = Inr (''STABLE'', 0, 0) \<and>
   trend_analysis [observed True 10, observed True 15] = Inr (''EXPANDING'', 5, 5) \<and>
   trend_analysis [observed True 15, observed True 10] = Inr (''SHRINKING'', - 5, - 5) \<and>
   trend_analysis [observed True 10, observed False 0, observed True 15, observed True 12] =
     Inr (''EXPANDING'', 2, 1) \<and>
   trend_analysis [] = Inr (''INSUFFICIENT_DATA'', 0, 0) \<and>
   trend_analysis [observed True 10] = Inr (''INSUFFICIENT_DATA'', 0, 0) \<and>
   trend_analysis [observed False 10, observed True 15] = Inr (''UNKNOWN'', 0, 0) \<and>
   (\<exists>c. compare_images demo_lake [''a.png'', ''b.png''] None = Inr c \<and>
        length (individual_results c) = 2 \<and>
        filter lake_success (individual_results c) = individual_results c \<and>
        (\<exists>avg. trend_analysis (individual_results c) =
                 Inr (trend c, total_lake_change_m2 c, avg)))"
proof -
  have "\<not> isl (compare_images demo_lake [''a.png'', ''b.png''] None)"
    by code_simp
  then obtain c where c: "compare_images demo_lake [''a.png'', ''b.png''] None = Inr c"
    by (cases "compare_images demo_lake [''a.png'', ''b.png''] None") auto
  from compare_images_trend_rule [of "[]" demo_lake "[''a.png'', ''b.png'']" None c] c
  have last: "\<exists>c. compare_images demo_lake [''a.png'', ''b.png''] None = Inr c \<and>
        length (individual_results c) = 2 \<and>
        filter lake_success (individual_results c) = individual_results c \<and>
        (\<exists>avg. trend_analysis (individual_results c) =
                 Inr (trend c, total_lake_change_m2 c, avg))"
    by auto
  show ?thesis
    using last
      compare_images_trend_rule [of "[observed True 10, observed True 10]" demo_lake "[]" None c]
      compare_images_trend_rule [of "[observed True 10, observed True 15]" demo_lake "[]" None c]
      compare_images_trend_rule [of "[observed True 15, observed True 10]" demo_lake "[]" None c]
      compare_images_trend_rule
        [of "[observed True 10, observed False 0, observed True 15, observed True 12]"
          demo_lake "[]" None c]
      compare_images_trend_rule [of "[]" demo_lake "[]" None c]
      compare_images_trend_rule [of "[observed True 10]" demo_lake "[]" None c]
      compare_images_trend_rule [of "[observed False 10, observed True 15]" demo_lake "[]" None c]
    by (simp add: observed_def Let_def)
qed

text \<open>
  Where the rule as the specification words it fails: one successful observation gives
  INSUFFICIENT_DATA, not UNKNOWN, also through compare_images on a single readable
  image; and two observations none of which succeeded give UNKNOWN, not
  INSUFFICIENT_DATA.
\<close>

theorem trend_single_observation_counterexample:
  "length (filter lake_success [observed True 100]) = 1 \<and>
   trend_analysis [observed True 100] = Inr (''INSUFFICIENT_DATA'', 0, 0) \<and>
   trend_analysis [observed True 100] \<noteq> Inr (''UNKNOWN'', 0, 0) \<and>
   map_sum id trend (compare_images demo_lake [''a.png''] None) = Inr ''INSUFFICIENT_DATA'' \<and>
   length (filter lake_success [observed False 10, observed False 20]) = 0 \<and>
   trend_analysis [observed False 10, observed False 20] = Inr (''UNKNOWN'', 0, 0) \<and>
   trend_analysis [observed False 10, observed False 20] \<noteq> Inr (''INSUFFICIENT_DATA'', 0, 0)"
proof -
  have "map_sum id trend (compare_images demo_lake [''a.png''] None) = Inr ''INSUFFICIENT_DATA''"
    by code_simp
  then show ?thesis
    by (simp add: trend_analysis_def observed_def)
qed

text \<open>
  C2 on the lake path. A directory with three files, the second of which is no image:
  compare_images raises the ValueError of the second file, so the third file is never
  analyzed and no aggregate is returned, although the first and third files alone
  compare without error. The loop of lake.py over the same analysis of the same three
  files keeps the two readable ones.
\<close>

theorem compare_images_unreadable_aborts:
  "compare_images demo_lake [''a.png'', ''unreadable.png'', ''b.png''] None =
     Inl (ValueError ''Could not read image'') \<and>
   \<not> isl (compare_images demo_lake [''a.png'', ''b.png''] None) \<and>
   map fst (process_multiple_images (\<lambda>p. analyze_image demo_lake (Some p) None None)
              [''a.png'', ''unreadable.png'', ''b.png''] []) = [''a.png'', ''b.png'']"
  by code_simp

subsection \<open>SAR: rounding, formatting, batches\<close>

lemma round_half_even_bounds:
  assumes "of_int a \<le> y" "y \<le> of_int b"
  shows "a \<le> round_half_even y \<and> round_half_even y \<le> b"
proof -
  have fl: "a \<le> \<lfloor>y\<rfloor>" using assms(1) by (simp add: le_floor_iff)
  have "\<lfloor>y\<rfloor> \<le> b" using assms(2) by (simp add: floor_le_iff)
  show ?thesis
  proof (cases "y = of_int b")
    case True
    then show ?thesis using fl by (simp add: round_half_even_def)
  next
    case False
    with assms(2) have "y < of_int b" by simp
    then have "\<lfloor>y\<rfloor> < b" by (simp add: floor_less_iff)
    with fl show ?thesis by (auto simp: round_half_even_def Let_def)
  qed
qed

lemma py_round2_bounds:
  assumes "0 \<le> x" "x \<le> 100"
  shows "0 \<le> py_round x 2 \<and> py_round x 2 \<le> 100"
proof -
  have "of_int 0 \<le> x * 10 ^ 2" "x * 10 ^ 2 \<le> of_int 10000" using assms by simp_all
  from round_half_even_bounds [OF this]
  have "0 \<le> round_half_even (x * 10 ^ 2)" "round_half_even (x * 10 ^ 2) \<le> 10000" by simp_all
  then have "0 \<le> (of_int (round_half_even (x * 10 ^ 2)) :: real)"
    "(of_int (round_half_even (x * 10 ^ 2)) :: real) \<le> 10000"
    by simp_all
  then show ?thesis by (simp add: py_round_def)
qed

lemma class_probabilities_three:
  "class_probabilities 0 [a] = Inr [(''pre_glof'', a * 100)]"
  "class_probabilities 0 [a, b] = Inr [(''pre_glof'', a * 100), (''during_glof'', b * 100)]"
  "class_probabilities 0 [a, b, c] =
     Inr [(''pre_glof'', a * 100), (''during_glof'', b * 100), (''post_glof'', c * 100)]"
  by (simp_all add: CLASS_LABELS_def)

lemma takeWhile_stops:
  "x \<in> set xs \<Longrightarrow> \<not> P x \<Longrightarrow> length (takeWhile P xs) < length xs"
  by (induction xs) auto

lemma argmax_in_range:
  "xs \<noteq> [] \<Longrightarrow> \<exists>i. argmax xs = Inr i \<and> i < length xs"
proof -
  assume ne: "xs \<noteq> []"
  then have "Max (set xs) \<in> set xs" by (intro Max_in) auto
  then have "length (takeWhile (\<lambda>x. x \<noteq> Max (set xs)) xs) < length xs"
    by (rule takeWhile_stops) simp
  with ne show ?thesis by (simp add: argmax_def)
qed

lemma short_list_cases:
  "xs \<noteq> [] \<Longrightarrow> length xs \<le> 3 \<Longrightarrow>
     (\<exists>a. xs = [a]) \<or> (\<exists>a b. xs = [a, b]) \<or> (\<exists>a b c. xs = [a, b, c])"
  by (auto simp: le_Suc_eq numeral_3_eq_3 length_Suc_conv)

lemma class_label_known:
  "i < 3 \<Longrightarrow> \<exists>cls info. CLASS_LABELS i = Some cls \<and> RISK_MAPPING cls = Some info"
  by (simp add: CLASS_LABELS_def RISK_MAPPING_def)

lemma format_prediction_returns:
  assumes "predictions \<noteq> []" "length predictions \<le> 3"
  shows "\<exists>probabilities r. class_probabilities 0 predictions = Inr probabilities \<and>
           format_prediction predictions = Inr r \<and>
           glof_probability r = py_round (weighted_glof_probability probabilities) 2"
proof -
  from argmax_in_range [OF assms(1)] obtain i where
    i: "argmax predictions = Inr i" "i < length predictions" by blast
  with assms(2) have "i < 3" by linarith
  from class_label_known [OF this] obtain cls info where
    cls: "CLASS_LABELS i = Some cls" and info: "RISK_MAPPING cls = Some info" by blast
  from short_list_cases [OF assms] class_probabilities_three
  obtain probabilities where "class_probabilities 0 predictions = Inr probabilities"
    by metis
  with i cls info show ?thesis by (simp add: format_prediction_def)
qed

text \<open>
  C10. For every class-probability vector of the three-class model with non-negative
  entries (one to three entries; a missing class counts 0), the formatter returns, and
  the reported glof_probability is the weighted sum during_glof * 1.0 +
  post_glof * 0.3 + pre_glof * 0.1 of the percentages, capped at 100 and rounded
  to two decimals; it lies in [0, 100] whatever the entries are.
\<close>

theorem glof_probability_capped:
  assumes "\<forall>p \<in> set predictions. 0 \<le> p" "predictions \<noteq> []" "length predictions \<le> 3"
  shows "\<exists>r. format_prediction predictions = Inr r \<and>
           glof_probability r =
             py_round (min 100
               ((if 1 < length predictions then predictions ! 1 * 100 else 0) * 1.0 +
                (if 2 < length predictions then predictions ! 2 * 100 else 0) * 0.3 +
                predictions ! 0 * 100 * 0.1)) 2 \<and>
           0 \<le> glof_probability r \<and> glof_probability r \<le> 100"
proof -
  from short_list_cases [OF assms(2,3)] obtain a b c where
    shape: "predictions = [a] \<or> predictions = [a, b] \<or> predictions = [a, b, c]"
    by blast
  from format_prediction_returns [OF assms(2,3)] obtain probabilities r where
    r: "class_probabilities 0 predictions = Inr probabilities"
       "format_prediction predictions = Inr r"
       "glof_probability r = py_round (weighted_glof_probability probabilities) 2"
    by blast
  let ?w = "(if 1 < length predictions then predictions ! 1 * 100 else 0) * 1.0 +
            (if 2 < length predictions then predictions ! 2 * 100 else 0) * 0.3 +
            predictions ! 0 * 100 * 0.1"
  have w: "weighted_glof_probability probabilities = min 100 ?w"
    using shape r(1)
    by (auto simp: CLASS_LABELS_def weighted_glof_probability_def dict_get_def)
  have "0 \<le> ?w" using shape assms(1) by auto
  then have "0 \<le> min 100 ?w" "min 100 ?w \<le> 100" by simp_all
  from py_round2_bounds [OF this] r w show ?thesis by simp
qed

theorem glof_probability_capped_witness:
  "(\<exists>r. format_prediction [1 / 5, 7 / 10, 1 / 10] = Inr r \<and> glof_probability r = 75 \<and>
        0 \<le> glof_probability r \<and> glof_probability r \<le> 100) \<and>
   (\<exists>r. format_prediction [1 / 2, 3, 2] = Inr r \<and> glof_probability r = 100)"
proof -
  have a: "\<forall>p \<in> set [1 / 5, 7 / 10, 1 / 10 :: real]. 0 \<le> p" by simp
  have b: "\<forall>p \<in> set [1 / 2, 3, 2 :: real]. 0 \<le> p" by simp
  have r1: "py_round 75 2 = 75" by (simp add: py_round_def round_half_even_def)
  have r2: "py_round 100 2 = 100" by (simp add: py_round_def round_half_even_def)
  from glof_probability_capped [OF a] glof_probability_capped [OF b] r1 r2
  show ?thesis by auto
qed

text \<open>
  The SAR batch: every path gets its own result, whatever happened to the others; the
  average and the maximum run over the successful results only; the counts of all and of
  successful images are reported when at least one succeeded.
\<close>

lemma analyze_batch_isolates_failures:
  fixes self :: "'t sar_analyzer"
  defines "results \<equiv> \<lambda>paths. map (\<lambda>path. (path, predict self path)) paths"
  defines "successful \<equiv> \<lambda>paths. filter (\<lambda>r. sar_success (snd r)) (results paths)"
  shows "analyze_batch self image_paths =
     (if successful image_paths \<noteq> [] then
        Inr (BatchOk (length image_paths) (length (successful image_paths))
               (py_round (sum_list (map (\<lambda>r. sar_glof_probability (snd r)) (successful image_paths)) /
                          real (length (successful image_paths))) 2)
               (py_round (Max (set (map (\<lambda>r. sar_glof_probability (snd r))
                                      (successful image_paths)))) 2)
               (results image_paths))
      else Inr (BatchFailed ''No images could be analyzed'' (results image_paths)))"
proof (cases "successful image_paths = []")
  case True
  then show ?thesis
    unfolding analyze_batch_def Let_def successful_def results_def by (simp only: if_False if_True simp_thms)
next
  case False
  then have "real (length (successful image_paths)) \<noteq> 0" by simp
  with False show ?thesis
    unfolding analyze_batch_def Let_def successful_def results_def py_truediv_def
    by (simp only: if_False if_True simp_thms sum.case)
qed

subsection \<open>The sensor heuristic\<close>

lemma mock_probability_at_caps:
  assumes "map_of sensors ''Water_Level_m'' = Some w" "20 \<le> w"
    and "map_of sensors ''Flow_Rate_m3_per_s'' = Some f" "200 \<le> f"
    and "map_of sensors ''Ground_Movement_mm'' = Some g" "10 \<le> g"
    and "map_of sensors ''Precipitation_mm'' = Some p" "100 \<le> p"
  shows "generate_mock_probability sensors 0 = 1"
  using assms by (simp add: generate_mock_probability_def dict_get_def Let_def min_def)

text \<open>
  C4. Without a trained classifier, for readings with Water_Level_m = 20,
  Flow_Rate_m3_per_s = 200, Ground_Movement_mm = 10 and Precipitation_mm = 100 (whatever
  the other readings are) and zero noise, the heuristic probability is exactly 1, the
  risk level is HIGH, and the reported percentage is 100.
\<close>

theorem heuristic_scenario_d:
  assumes "classifier self = None"
    and "map_of sensors ''Water_Level_m'' = Some 20"
    and "map_of sensors ''Flow_Rate_m3_per_s'' = Some 200"
    and "map_of sensors ''Ground_Movement_mm'' = Some 10"
    and "map_of sensors ''Precipitation_mm'' = Some 100"
  shows "generate_mock_probability sensors 0 = 1 \<and>
         glof_risk_level (fst (glof_predict self uniform 0 (Some sensors))) = ''HIGH'' \<and>
         probability (fst (glof_predict self uniform 0 (Some sensors))) = 100"
proof -
  have one: "generate_mock_probability sensors 0 = 1"
    using mock_probability_at_caps [OF assms(2) _ assms(3) _ assms(4) _ assms(5)] by simp
  have r: "py_round 100 2 = 100" by (simp add: py_round_def round_half_even_def)
  from one r assms(1) show ?thesis
    by (simp add: glof_predict_def Let_def)
qed

theorem heuristic_scenario_d_witness:
  "generate_mock_probability scenario_d 0 = 1 \<and>
   glof_risk_level (fst (glof_predict \<lparr>classifier = None, sensor_baseline = sensor_baseline_initial\<rparr>
                           (\<lambda>i. 0) 0 (Some scenario_d))) = ''HIGH'' \<and>
   probability (fst (glof_predict \<lparr>classifier = None, sensor_baseline = sensor_baseline_initial\<rparr>
                       (\<lambda>i. 0) 0 (Some scenario_d))) = 100"
  using heuristic_scenario_d
    [of "\<lparr>classifier = None, sensor_baseline = sensor_baseline_initial\<rparr>" scenario_d "\<lambda>i. 0"]
  by (simp add: scenario_d_def)

subsection \<open>Min-max normalization\<close>

lemma concat_map_map: "concat (map (map f) img) = map f (concat img)"
  by (induction img) auto

lemma zeros_like_idem: "zeros_like (zeros_like img) = zeros_like img"
  by (simp add: zeros_like_def)

lemma normalize_zeros:
  assumes "concat img \<noteq> []"
  shows "normalize_image (zeros_like img) = Inr (map (map Finite) (zeros_like img))"
proof -
  have c: "concat (zeros_like img) = map (\<lambda>v. 0) (concat img)"
    by (simp add: zeros_like_def concat_map_map)
  with assms have ne: "concat (zeros_like img) \<noteq> []" by simp
  from assms have "set (concat (zeros_like img)) = {0}"
    unfolding c by (cases "concat img") auto
  with ne show ?thesis by (simp add: normalize_image_def zeros_like_idem)
qed

lemma normalize_scaled:
  assumes ne: "concat img \<noteq> []"
    and d: "Max (set (concat img)) - Min (set (concat img)) > 0"
  defines "f \<equiv> \<lambda>v. (v - Min (set (concat img))) / (Max (set (concat img)) - Min (set (concat img)))"
  shows "normalize_image img = Inr (map (map Finite) (map (map f) img))"
    and "normalize_image (map (map f) img) = Inr (map (map Finite) (map (map f) img))"
proof -
  let ?xs = "concat img"
  have fin: "finite (set ?xs)" "set ?xs \<noteq> {}" using ne by auto
  have monof: "mono f"
    using d by (auto simp: mono_def f_def divide_right_mono)
  have c: "concat (map (map f) img) = map f ?xs" by (rule concat_map_map)
  have mn: "Min (set (map f ?xs)) = 0"
    using mono_Min_commute [OF monof fin] by (simp add: f_def)
  have mx: "Max (set (map f ?xs)) = 1"
    using mono_Max_commute [OF monof fin] d by (simp add: f_def)
  from ne d show "normalize_image img = Inr (map (map Finite) (map (map f) img))"
    by (simp add: normalize_image_def Let_def np_divide_def f_def comp_def)
  have "map (map (\<lambda>v. np_divide (v - 0) (1 - 0))) (map (map f) img) =
        map (map Finite) (map (map f) img)"
    by (simp add: np_divide_def comp_def)
  with ne mn mx show "normalize_image (map (map f) img) = Inr (map (map Finite) (map (map f) img))"
    unfolding normalize_image_def c by (simp add: Let_def)
qed

text \<open>
  C9. On every grid with at least one cell, normalize returns a grid of finite
  values: no cell is the result of a division by zero. A constant grid gives the
  all-zero grid of the same shape. Normalizing the result again returns it unchanged,
  exactly, for every such grid (so in particular for a non-constant one with values in
  [0, 1]); and a grid whose minimum is 0 and maximum is 1 is returned as it is.
\<close>

theorem normalize_constant_and_idempotent:
  assumes "concat img \<noteq> []"
  shows "\<exists>y. normalize_image img = Inr (map (map Finite) y) \<and>
           normalize_image y = Inr (map (map Finite) y) \<and>
           ((\<forall>v \<in> set (concat img). \<forall>w \<in> set (concat img). v = w) \<longrightarrow> y = zeros_like img) \<and>
           (Min (set (concat img)) = 0 \<and> Max (set (concat img)) = 1 \<longrightarrow> y = img)"
proof (cases "Max (set (concat img)) - Min (set (concat img)) > 0")
  case True
  let ?f = "\<lambda>v. (v - Min (set (concat img))) / (Max (set (concat img)) - Min (set (concat img)))"
  have "Min (set (concat img)) \<in> set (concat img)" "Max (set (concat img)) \<in> set (concat img)"
  proof -
    have "finite (set (concat img))" "set (concat img) \<noteq> {}"
      using assms by (simp_all del: set_concat)
    then show "Min (set (concat img)) \<in> set (concat img)"
      "Max (set (concat img)) \<in> set (concat img)"
      by (rule Min_in, rule Max_in)
  qed
  with True have nonconst: "\<not> (\<forall>v \<in> set (concat img). \<forall>w \<in> set (concat img). v = w)"
    by force
  have unit: "Min (set (concat img)) = 0 \<and> Max (set (concat img)) = 1 \<longrightarrow> map (map ?f) img = img"
    by (auto simp: map_idI)
  from normalize_scaled [OF assms True] nonconst unit show ?thesis
    by (intro exI [of _ "map (map ?f) img"]) blast
next
  case False
  then have n: "normalize_image img = Inr (map (map Finite) (zeros_like img))"
    using assms by (simp add: normalize_image_def Let_def)
  from False have "\<not> (Min (set (concat img)) = 0 \<and> Max (set (concat img)) = 1)" by auto
  with n normalize_zeros [OF assms] show ?thesis
    by (intro exI [of _ "zeros_like img"]) blast
qed

theorem normalize_constant_and_idempotent_witness:
  "normalize_image [[7, 7], [7, 7]] = Inr [[Finite 0, Finite 0], [Finite 0, Finite 0]] \<and>
   normalize_image [[1 / 5, 1 / 2], [3 / 10, 4 / 5]] =
     Inr [[Finite 0, Finite (1 / 2)], [Finite (1 / 6), Finite 1]] \<and>
   normalize_image [[0, 1 / 2], [1 / 6, 1]] =
     Inr [[Finite 0, Finite (1 / 2)], [Finite (1 / 6), Finite 1]]"
proof -
  have a: "concat [[7, 7], [7, 7 :: real]] \<noteq> []" by simp
  have n: "normalize_image [[1 / 5, 1 / 2], [3 / 10, 4 / 5]] =
      Inr (map (map Finite) [[0, 1 / 2], [1 / 6, 1]])"
    by (simp add: normalize_image_def np_divide_def Let_def)
  have c: "concat [[0, 1 / 2], [1 / 6, 1 :: real]] \<noteq> []" by simp
  from normalize_constant_and_idempotent [OF c] have second:
    "normalize_image [[0, 1 / 2], [1 / 6, 1]] =
      Inr [[Finite 0, Finite (1 / 2)], [Finite (1 / 6), Finite 1]]"
    by auto
  from normalize_constant_and_idempotent [OF a] have first:
    "normalize_image [[7, 7], [7, 7]] = Inr [[Finite 0, Finite 0], [Finite 0, Finite 0]]"
    by (auto simp: zeros_like_def)
  from first n second show ?thesis by simp
qed

text \<open>
  The test before the division is what keeps the result finite: the same division on a
  constant grid, where \<^verbatim>\<open>max_val - min_val\<close> is 0, gives a value that is not finite.
\<close>

lemma unguarded_division_not_finite:
  "map (map (\<lambda>v. np_divide (v - Min (set (concat [[7, 7 :: real]])))
                   (Max (set (concat [[7, 7]])) - Min (set (concat [[7, 7]])))))
     [[7, 7]] = [[NotFinite, NotFinite]]"
  by (simp add: np_divide_def)

subsection \<open>DEM analysis without the raster library\<close>




subsection \<open>Video analysis\<close>

lemma video_loop_count:
  "video_loop self max_frames frame_skip frames prev fc ac rs = Inr (rs', n) \<Longrightarrow>
     ac = int (length rs) \<Longrightarrow> n = int (length rs')"
proof (induction frames arbitrary: prev fc ac rs)
  case Nil
  then show ?case by auto
next
  case (Cons frame rest)
  show ?case
  proof (cases "ac < max_frames")
    case False
    with Cons.prems show ?thesis by auto
  next
    case True
    show ?thesis
    proof (cases "py_mod (fc + 1) frame_skip")
      case (Inl e)
      with True Cons.prems show ?thesis by simp
    next
      case (Inr r)
      show ?thesis
      proof (cases "r \<noteq> 0")
        case True
        with \<open>ac < max_frames\<close> Inr Cons.prems Cons.IH [of prev "fc + 1" ac rs]
        show ?thesis by simp
      next
        case r0: False
        show ?thesis
        proof (cases prev)
          case None
          with r0 \<open>ac < max_frames\<close> Inr Cons.prems Cons.IH [of "Some frame" "fc + 1" ac rs]
          show ?thesis by simp
        next
          case (Some p)
          show ?thesis
          proof (cases "analyze_frame_pair self p frame")
            case (Inl e)
            with Some r0 \<open>ac < max_frames\<close> Inr Cons.prems show ?thesis by simp
          next
            case res: (Inr result)
            with Some r0 \<open>ac < max_frames\<close> Inr Cons.prems
              Cons.IH [of "Some frame" "fc + 1" "ac + 1"
                          "rs @ [result\<lparr>frame_number := Some (fc + 1)\<rparr>]"]
            show ?thesis by simp
          qed
        qed
      qed
    qed
  qed
qed

lemma video_loop_no_frames:
  "frames = [] \<or> max_frames \<le> 0 \<Longrightarrow>
     video_loop self max_frames frame_skip frames None 0 0 [] = Inr ([], 0)"
  by (cases frames) auto

lemma motion_risk_known: "fst (motion_assess_risk v w) \<noteq> ''UNKNOWN''"
  by (simp add: motion_assess_risk_def)

text \<open>
  C6, as the code has it. A source that cannot be opened gives the explicit failure
  "Could not open video". A source that opens but has no decodable frame (or is
  analyzed with max_frames \<le> 0) gives a success result with frames_analyzed = 0, zero
  volumes and velocity, risk level UNKNOWN and the message "No frames analyzed". In
  every success result frames_analyzed = 0 exactly when the risk level is UNKNOWN, and
  then the volumes and the velocity are 0.
\<close>

theorem analyze_video_unopened_or_empty:
  "(\<not> is_opened cap \<longrightarrow>
      analyze_video self cap max_frames frame_skip = Inr (VideoError ''Could not open video'')) \<and>
   (is_opened cap \<and> (readable_frames cap = [] \<or> max_frames \<le> 0) \<longrightarrow>
      analyze_video self cap max_frames frame_skip =
        Inr (VideoOk
          \<lparr> info_fps = video_fps cap, info_total_frames = video_total_frames cap,
            info_width = video_width cap, info_height = video_height cap,
            frames_analyzed = 0, avg_flow_volume_m3 = 0, max_flow_volume_m3 = 0,
            video_avg_flow_velocity = 0, video_risk_level = ''UNKNOWN'',
            video_risk_message = ''No frames analyzed'' \<rparr>)) \<and>
   (analyze_video self cap max_frames frame_skip = Inr (VideoOk report) \<longrightarrow>
      is_opened cap \<and>
      (frames_analyzed report = 0 \<longleftrightarrow> video_risk_level report = ''UNKNOWN'') \<and>
      (frames_analyzed report = 0 \<longrightarrow>
         avg_flow_volume_m3 report = 0 \<and> max_flow_volume_m3 report = 0 \<and>
         video_avg_flow_velocity report = 0 \<and>
         video_risk_message report = ''No frames analyzed''))"
proof -
  have r0: "py_round 0 4 = 0" by (simp add: py_round_def round_half_even_def)
  have a: "\<not> is_opened cap \<longrightarrow>
      analyze_video self cap max_frames frame_skip = Inr (VideoError ''Could not open video'')"
    by (simp add: analyze_video_def)
  have b: "is_opened cap \<and> (readable_frames cap = [] \<or> max_frames \<le> 0) \<longrightarrow>
      analyze_video self cap max_frames frame_skip =
        Inr (VideoOk
          \<lparr> info_fps = video_fps cap, info_total_frames = video_total_frames cap,
            info_width = video_width cap, info_height = video_height cap,
            frames_analyzed = 0, avg_flow_volume_m3 = 0, max_flow_volume_m3 = 0,
            video_avg_flow_velocity = 0, video_risk_level = ''UNKNOWN'',
            video_risk_message = ''No frames analyzed'' \<rparr>)"
  proof
    assume h: "is_opened cap \<and> (readable_frames cap = [] \<or> max_frames \<le> 0)"
    then have "video_loop self max_frames frame_skip (readable_frames cap) None 0 0 [] = Inr ([], 0)"
      by (intro video_loop_no_frames) simp
    with h r0 show "analyze_video self cap max_frames frame_skip =
        Inr (VideoOk
          \<lparr> info_fps = video_fps cap, info_total_frames = video_total_frames cap,
            info_width = video_width cap, info_height = video_height cap,
            frames_analyzed = 0, avg_flow_volume_m3 = 0, max_flow_volume_m3 = 0,
            video_avg_flow_velocity = 0, video_risk_level = ''UNKNOWN'',
            video_risk_message = ''No frames analyzed'' \<rparr>)"
      by (simp add: analyze_video_def)
  qed
  have c: "analyze_video self cap max_frames frame_skip = Inr (VideoOk report) \<longrightarrow>
      is_opened cap \<and>
      (frames_analyzed report = 0 \<longleftrightarrow> video_risk_level report = ''UNKNOWN'') \<and>
      (frames_analyzed report = 0 \<longrightarrow>
         avg_flow_volume_m3 report = 0 \<and> max_flow_volume_m3 report = 0 \<and>
         video_avg_flow_velocity report = 0 \<and>
         video_risk_message report = ''No frames analyzed'')"
  proof
    assume ok: "analyze_video self cap max_frames frame_skip = Inr (VideoOk report)"
    then have opened: "is_opened cap"
      by (auto simp: analyze_video_def split: if_splits)
    with ok obtain results n where
      loop: "video_loop self max_frames frame_skip (readable_frames cap) None 0 0 [] =
               Inr (results, n)"
      by (auto simp: analyze_video_def split: sum.splits)
    from video_loop_count [OF loop] have n: "n = int (length results)" by simp
    show "is_opened cap \<and>
      (frames_analyzed report = 0 \<longleftrightarrow> video_risk_level report = ''UNKNOWN'') \<and>
      (frames_analyzed report = 0 \<longrightarrow>
         avg_flow_volume_m3 report = 0 \<and> max_flow_volume_m3 report = 0 \<and>
         video_avg_flow_velocity report = 0 \<and>
         video_risk_message report = ''No frames analyzed'')"
    proof (cases "results = []")
      case True
      with ok opened loop n r0 show ?thesis
        by (auto simp: analyze_video_def)
    next
      case False
      with n have "n \<noteq> 0" by simp
      with False ok opened loop motion_risk_known show ?thesis
        by (auto simp: analyze_video_def Let_def)
    qed
  qed
  from a b c show ?thesis by blast
qed

theorem analyze_video_unopened_or_empty_witness:
  "analyze_video demo_detector (demo_capture False [1, 2, 3]) 100 1 =
     Inr (VideoError ''Could not open video'') \<and>
   analyze_video demo_detector (demo_capture True []) 100 1 =
     Inr (VideoOk
       \<lparr> info_fps = 25, info_total_frames = 0, info_width = 640, info_height = 480,
         frames_analyzed = 0, avg_flow_volume_m3 = 0, max_flow_volume_m3 = 0,
         video_avg_flow_velocity = 0, video_risk_level = ''UNKNOWN'',
         video_risk_message = ''No frames analyzed'' \<rparr>) \<and>
   (\<exists>report. analyze_video demo_detector (demo_capture True [1, 2, 3]) 100 1 =
        Inr (VideoOk report) \<and>
      frames_analyzed report = 2 \<and> video_risk_level report \<noteq> ''UNKNOWN'')"
proof -
  have "\<exists>report. analyze_video demo_detector (demo_capture True [1, 2, 3]) 100 1 =
        Inr (VideoOk report) \<and> frames_analyzed report = 2"
    by (simp add: analyze_video_def demo_capture_def demo_detector_def
        analyze_frame_pair_def py_mod_def motion_assess_risk_def Let_def
        py_round_def round_half_even_def)
  then obtain report where
    report: "analyze_video demo_detector (demo_capture True [1, 2, 3]) 100 1 = Inr (VideoOk report)"
      "frames_analyzed report = 2"
    by blast
  have closed: "\<not> is_opened (demo_capture False [1, 2, 3])"
    and opened: "is_opened (demo_capture True [])"
    and empty: "readable_frames (demo_capture True []) = []"
    by (simp_all add: demo_capture_def)
  have first: "analyze_video demo_detector (demo_capture False [1, 2, 3]) 100 1 =
      Inr (VideoError ''Could not open video'')"
    using analyze_video_unopened_or_empty
      [of "demo_capture False [1, 2, 3]" demo_detector 100 1 report, THEN conjunct1] closed
    by blast
  have "analyze_video demo_detector (demo_capture True []) 100 1 =
      Inr (VideoOk
        \<lparr> info_fps = video_fps (demo_capture True []),
          info_total_frames = video_total_frames (demo_capture True []),
          info_width = video_width (demo_capture True []),
          info_height = video_height (demo_capture True []),
          frames_analyzed = 0, avg_flow_volume_m3 = 0, max_flow_volume_m3 = 0,
          video_avg_flow_velocity = 0, video_risk_level = ''UNKNOWN'',
          video_risk_message = ''No frames analyzed'' \<rparr>)"
    using analyze_video_unopened_or_empty
      [of "demo_capture True []" demo_detector 100 1 report, THEN conjunct2, THEN conjunct1]
      opened empty
    by blast
  then have second: "analyze_video demo_detector (demo_capture True []) 100 1 =
     Inr (VideoOk
       \<lparr> info_fps = 25, info_total_frames = 0, info_width = 640, info_height = 480,
         frames_analyzed = 0, avg_flow_volume_m3 = 0, max_flow_volume_m3 = 0,
         video_avg_flow_velocity = 0, video_risk_level = ''UNKNOWN'',
         video_risk_message = ''No frames analyzed'' \<rparr>)"
    by (simp add: demo_capture_def)
  have "frames_analyzed report = 0 \<longleftrightarrow> video_risk_level report = ''UNKNOWN''"
    using analyze_video_unopened_or_empty
      [of "demo_capture True [1, 2, 3]" demo_detector 100 1 report, THEN conjunct2, THEN conjunct2]
      report(1)
    by blast
  with report have third: "\<exists>report. analyze_video demo_detector (demo_capture True [1, 2, 3]) 100 1 =
        Inr (VideoOk report) \<and>
      frames_analyzed report = 2 \<and> video_risk_level report \<noteq> ''UNKNOWN''"
    by (intro exI [of _ report]) simp
  from first second third show ?thesis by blast
qed

text \<open>
  Where the rule as the specification words it fails: a video file that opens but
  delivers no decodable frame is answered with a success result whose values are all
  zero, not with a failure.
\<close>

theorem analyze_video_zero_result_counterexample:
  "is_opened (demo_capture True []) \<and>
   readable_frames (demo_capture True []) = [] \<and>
   analyze_video demo_detector (demo_capture True []) 100 1 =
     Inr (VideoOk
       \<lparr> info_fps = 25, info_total_frames = 0, info_width = 640, info_height = 480,
         frames_analyzed = 0, avg_flow_volume_m3 = 0, max_flow_volume_m3 = 0,
         video_avg_flow_velocity = 0, video_risk_level = ''UNKNOWN'',
         video_risk_message = ''No frames analyzed'' \<rparr>) \<and>
   (\<forall>msg. analyze_video demo_detector (demo_capture True []) 100 1 \<noteq> Inr (VideoError msg))"
  by (simp add: analyze_video_def demo_capture_def py_round_def round_half_even_def)

subsection \<open>Sizes before and after dilation in \<^verbatim>\<open>analyze_image\<close>\<close>

text \<open>
  With dilation radii that are not negative, the "after" sizes that analyze_image
  reports are at least the "before" sizes, for the lake and for the ice.
\<close>

lemma analyze_image_fields:
  assumes "analyze_image self path bytes resolution = Inr r"
  shows "\<exists>gray t res.
           lake_size_before_m2 r =
             int (get_largest_region_size (label (map (map (\<lambda>v. real v \<le> t)) gray))) * (res * res) \<and>
           lake_size_after_m2 r =
             int (get_largest_region_size
                    (label (dilation (map (map (\<lambda>v. real v \<le> t)) gray) (disk (DILATION_LAKE self))))) *
               (res * res) \<and>
           ice_size_before_m2 r =
             int (get_largest_region_size (label (map (map (\<lambda>v. real v > t)) gray))) * (res * res) \<and>
           ice_size_after_m2 r =
             int (get_largest_region_size
                    (label (dilation (map (map (\<lambda>v. real v > t)) gray) (disk (DILATION_ICE self))))) *
               (res * res)"
proof -
  from assms obtain gray where g: "load_image self path bytes = Inr gray"
    by (auto simp: analyze_image_def Let_def split: sum.splits)
  with assms obtain t where t: "threshold_otsu self gray = Inr t"
    by (auto simp: analyze_image_def Let_def split: sum.splits)
  from assms g t show ?thesis
    unfolding analyze_image_def Let_def
    by (intro exI [of _ gray] exI [of _ t] exI [of _ "py_or resolution (self_resolution self)"])
       (auto split: sum.splits if_splits)
qed

lemma analyze_image_sizes_grow:
  assumes "analyze_image self path bytes resolution = Inr r"
    and "0 \<le> DILATION_LAKE self" "0 \<le> DILATION_ICE self"
  shows "lake_size_before_m2 r \<le> lake_size_after_m2 r \<and>
         ice_size_before_m2 r \<le> ice_size_after_m2 r"
proof -
  have grow: "int (get_largest_region_size (label m)) * (k * k) \<le>
      int (get_largest_region_size (label (dilation m (disk radius)))) * (k * k)"
    if "0 \<le> radius" for m radius and k :: int
  proof -
    from that have "get_largest_region_size (label m) \<le>
        get_largest_region_size (label (dilation m (disk radius)))"
      using largest_region_mono [of "pixels m" "pixels (dilation m (disk radius))"]
        pixels_dilation_extensive [of radius m] finite_pixels [of "dilation m (disk radius)"]
      by (simp add: label_def)
    then show ?thesis by (intro mult_right_mono) simp_all
  qed
  from analyze_image_fields [OF assms(1)] obtain gray t res where
    "lake_size_before_m2 r =
       int (get_largest_region_size (label (map (map (\<lambda>v. real v \<le> t)) gray))) * (res * res)"
    "lake_size_after_m2 r =
       int (get_largest_region_size
              (label (dilation (map (map (\<lambda>v. real v \<le> t)) gray) (disk (DILATION_LAKE self))))) *
         (res * res)"
    "ice_size_before_m2 r =
       int (get_largest_region_size (label (map (map (\<lambda>v. real v > t)) gray))) * (res * res)"
    "ice_size_after_m2 r =
       int (get_largest_region_size
              (label (dilation (map (map (\<lambda>v. real v > t)) gray) (disk (DILATION_ICE self))))) *
         (res * res)"
    by blast
  with grow [OF assms(2)] grow [OF assms(3)] show ?thesis by simp
qed

end
